theory Spec2Isabelle
  imports Main "HOL-Library.Sublist"
begin

section \<open>Python values, exceptions and the observable world\<close>

text \<open>
  The methods of \<^verbatim>\<open>DICOMPipelineManager\<close> and \<^verbatim>\<open>MedicalDeviceSupportSystem\<close> are
  dynamically typed. The values modelled are strings (what S3 lists as keys and what
  \<^verbatim>\<open>run_pipeline\<close> passes to \<^verbatim>\<open>process_images\<close>), \<^verbatim>\<open>None\<close>, and lists of strings.
  On each of them \<^verbatim>\<open>str\<close> always succeeds, so an f-string that interpolates such a
  value cannot raise. Values whose formatting can raise (an integer too long to print, a
  list nested too deeply, an object with a failing \<^verbatim>\<open>__str__\<close>) are outside the model,
  and nothing below speaks about them.
\<close>

datatype pyval = PStr string | PNone | PList "string list"

text \<open>
  Exceptions (all of them subclasses of \<^verbatim>\<open>Exception\<close>). \<open>ServiceError\<close> stands for
  whatever a boto3 client call raises (a client error, a connection error, a time-out).
\<close>

datatype exn = TypeError | KeyError string | IndexError | ServiceError string

datatype level = DEBUG | INFO | WARNING | ERROR | CRITICAL

text \<open>
  One constructor per message template of the source; the arguments are the values the
  f-string interpolates.
\<close>

datatype logmsg =
    FoundDicomFiles nat
  | ApplyingOperation nat pyval
  | ConditionMet nat nat pyval
  | SkippingOp nat nat pyval
  | ProcessingComplete pyval
  | AlreadyProcessed pyval
  | FailedToProcess pyval exn
  | NotificationSentForProcessed
  | NoDicomFiles
  | NotificationSentTo string string
  | ErrorSendingNotification exn
  | UnusualAccessPattern string
  | ErrorAuditing exn
  | InvokedLambda string
  | ErrorInvokingLambda exn

record publish_request =
  TopicArn :: string
  Message :: string
  Subject :: "string option"

text \<open>
  What a run leaves behind: the calls made to the \<^verbatim>\<open>logging\<close> module, the
  \<^verbatim>\<open>publish\<close> calls made on the SNS client, and a ghost counter of the entries into
  \<^verbatim>\<open>process_images\<close>.
\<close>

record world =
  logged :: "(level \<times> logmsg) list"
  sns_calls :: "publish_request list"
  engine_runs :: nat

definition init_world :: world where
  "init_world = \<lparr>logged = [], sns_calls = [], engine_runs = 0\<rparr>"

definition logging :: "level \<Rightarrow> logmsg \<Rightarrow> world \<Rightarrow> world" where
  "logging lv m w = w\<lparr>logged := logged w @ [(lv, m)]\<rparr>"

section \<open>Statements that may raise\<close>

text \<open>
  A statement maps a state to the state it leaves and to the exception it raised, if any
  (\<open>None\<close>: it completed normally).
\<close>

type_synonym 's stmt = "'s \<Rightarrow> exn option \<times> 's"

definition try_except :: "'s stmt \<Rightarrow> (exn \<Rightarrow> 's stmt) \<Rightarrow> 's stmt" where
  "try_except body handler s =
     (case body s of
        (None, s') \<Rightarrow> (None, s')
      | (Some e, s') \<Rightarrow> handler e s')"

fun for_in :: "'a list \<Rightarrow> ('a \<Rightarrow> 's stmt) \<Rightarrow> 's stmt" where
  "for_in [] body s = (None, s)"
| "for_in (x # xs) body s =
     (case body x s of
        (None, s') \<Rightarrow> for_in xs body s'
      | (Some e, s') \<Rightarrow> (Some e, s'))"

section \<open>Python's string and list operators\<close>

text \<open>\<^verbatim>\<open>needle in hay\<close> on two strings: \<open>needle\<close> occurs as a contiguous run.\<close>

fun str_contains :: "string \<Rightarrow> string \<Rightarrow> bool" where
  "str_contains needle [] = (needle = [])"
| "str_contains needle (c # cs) = (prefix needle (c # cs) \<or> str_contains needle cs)"

text \<open>
  \<^verbatim>\<open>needle in x\<close> for a string \<open>needle\<close>: substring test on a string, membership
  (by \<^verbatim>\<open>==\<close>) on a list of strings, \<^verbatim>\<open>TypeError\<close> on \<^verbatim>\<open>None\<close>.
\<close>

fun py_in :: "string \<Rightarrow> pyval \<Rightarrow> exn + bool" where
  "py_in needle (PStr s) = Inr (str_contains needle s)"
| "py_in needle (PList xs) = Inr (needle \<in> set xs)"
| "py_in needle PNone = Inl TypeError"

text \<open>\<^verbatim>\<open>x + t\<close> for a string \<open>t\<close>: concatenation on a string, \<^verbatim>\<open>TypeError\<close> otherwise.\<close>

fun py_add_str :: "pyval \<Rightarrow> string \<Rightarrow> exn + string" where
  "py_add_str (PStr s) t = Inr (s @ t)"
| "py_add_str (PList xs) t = Inl TypeError"
| "py_add_str PNone t = Inl TypeError"

text \<open>\<^verbatim>\<open>s.endswith(suf)\<close>.\<close>

definition endswith :: "string \<Rightarrow> string \<Rightarrow> bool" where
  "endswith s suf = (length suf \<le> length s \<and> drop (length s - length suf) s = suf)"

text \<open>\<^verbatim>\<open>sep.join(xs)\<close>.\<close>

fun join :: "string \<Rightarrow> string list \<Rightarrow> string" where
  "join sep [] = []"
| "join sep [x] = x"
| "join sep (x # y # ys) = x @ sep @ join sep (y # ys)"

section \<open>\<^verbatim>\<open>DICOMPipelineManager.process_images\<close>\<close>

text \<open>
  Lines 30 to 36: for each \<open>i\<close> in \<^verbatim>\<open>range(5)\<close> one \<^verbatim>\<open>logging.info\<close>, then for
  each \<open>j\<close> in \<^verbatim>\<open>range(3)\<close> one \<^verbatim>\<open>logging.debug\<close> chosen by the parity of
  \<^verbatim>\<open>i * j\<close>. None of these calls can raise.
\<close>

definition inner_ops :: "pyval \<Rightarrow> nat \<Rightarrow> (level \<times> logmsg) list" where
  "inner_ops file i =
     map (\<lambda>j. if i * j mod 2 = 0 then (DEBUG, ConditionMet i j file)
               else (DEBUG, SkippingOp i j file)) [0..<3]"

definition stage_ops :: "pyval \<Rightarrow> (level \<times> logmsg) list" where
  "stage_ops file =
     concat (map (\<lambda>i. (INFO, ApplyingOperation i file) # inner_ops file i) [0..<5])"

text \<open>
  The state of the loop: the local list \<^verbatim>\<open>processed_files\<close> and the world.
\<close>

type_synonym frame = "string list \<times> world"

text \<open>
  Lines 28 to 41, the body of the \<^verbatim>\<open>try\<close>. Each log entry carries the asset its
  f-string interpolates; on the values modelled the interpolation cannot raise, so the
  body raises only at the membership test of line 28 or at the concatenation of line 38.
\<close>

definition try_body :: "pyval \<Rightarrow> frame stmt" where
  "try_body file = (\<lambda>(processed_files, w).
     case py_in ''processed'' file of
       Inl e \<Rightarrow> (Some e, (processed_files, w))
     | Inr found \<Rightarrow>
         if \<not> found then
           (let w1 = w\<lparr>logged := logged w @ stage_ops file\<rparr> in
            case py_add_str file ''_processed'' of
              Inl e \<Rightarrow> (Some e, (processed_files, w1))
            | Inr out \<Rightarrow>
                (None, (processed_files @ [out],
                        logging INFO (ProcessingComplete file) w1)))
         else (None, (processed_files, logging WARNING (AlreadyProcessed file) w)))"

text \<open>
  Lines 42 and 43, the \<^verbatim>\<open>except Exception as e\<close> clause. Its f-string interpolates
  the asset and \<^verbatim>\<open>str(e)\<close> outside any \<^verbatim>\<open>try\<close>; on the values modelled neither can
  raise.
\<close>

definition except_handler :: "pyval \<Rightarrow> exn \<Rightarrow> frame stmt" where
  "except_handler file e = (\<lambda>(processed_files, w).
     (None, (processed_files, logging ERROR (FailedToProcess file e) w)))"

definition process_images :: "pyval list \<Rightarrow> world \<Rightarrow> (exn + string list) \<times> world" where
  "process_images dicom_files w =
     (case for_in dicom_files (\<lambda>file. try_except (try_body file) (except_handler file))
             ([], w\<lparr>engine_runs := Suc (engine_runs w)\<rparr>) of
        (None, (processed_files, w')) \<Rightarrow> (Inr processed_files, w')
      | (Some e, (processed_files, w')) \<Rightarrow> (Inl e, w'))"

section \<open>The AWS services, as the methods see them\<close>

text \<open>
  Each field is the answer of one client call: \<open>Inl\<close> when the call raises, \<open>Inr\<close> with
  the part of the response the methods read otherwise.
  \<^item> \<^verbatim>\<open>s3.list_objects_v2(Bucket=b)\<close>: the \<^verbatim>\<open>Key\<close> of every entry of
    \<^verbatim>\<open>Contents\<close>; \<open>None\<close> when the response has no \<^verbatim>\<open>Contents\<close> entry (S3 leaves
    it out when nothing is listed).
  \<^item> \<^verbatim>\<open>sns.publish(...)\<close>: the response, opaque.
  \<^item> \<^verbatim>\<open>cloudwatch.describe_alarms(StateValue=v)\<close>: the \<^verbatim>\<open>MetricAlarms\<close>.
  \<^item> \<^verbatim>\<open>logs.start_query(logGroupName=g, ..., queryString=q)\<close>: the \<^verbatim>\<open>queryId\<close>.
    The start and end times come from the system clock and are not modelled.
  \<^item> \<^verbatim>\<open>logs.get_query_results(queryId=i)\<close>: the \<^verbatim>\<open>results\<close>, each row opaque.
  \<^item> \<^verbatim>\<open>lambda.invoke(FunctionName=f, InvocationType=t, Payload=p)\<close>: the response,
    opaque.
\<close>

record alarm =
  AlarmName :: string
  AlarmActions :: "string list"

record aws =
  s3_list_objects_v2 :: "string \<Rightarrow> exn + string list option"
  sns_publish :: "publish_request \<Rightarrow> exn + string"
  cloudwatch_describe_alarms :: "string \<Rightarrow> exn + alarm list"
  logs_start_query :: "string \<Rightarrow> string \<Rightarrow> exn + string"
  logs_get_query_results :: "string \<Rightarrow> exn + string list"
  lambda_invoke :: "string \<Rightarrow> string \<Rightarrow> string \<Rightarrow> exn + string"

section \<open>\<^verbatim>\<open>DICOMPipelineManager\<close>: listing, notification, orchestration\<close>

record manager =
  s3_bucket_name :: string
  sns_topic_arn :: string

text \<open>Lines 15 to 20. Subscripting the response with \<^verbatim>\<open>'Contents'\<close> raises
  \<^verbatim>\<open>KeyError\<close> when the entry is absent.\<close>

definition fetch_dicom_files :: "manager \<Rightarrow> aws \<Rightarrow> world \<Rightarrow> (exn + string list) \<times> world" where
  "fetch_dicom_files self a w =
     (case s3_list_objects_v2 a (s3_bucket_name self) of
        Inl e \<Rightarrow> (Inl e, w)
      | Inr files \<Rightarrow>
          (case files of
             None \<Rightarrow> (Inl (KeyError ''Contents''), w)
           | Some keys \<Rightarrow>
               (let dicom_files = filter (\<lambda>key. endswith key ''.dcm'') keys
                in (Inr dicom_files, logging INFO (FoundDicomFiles (length dicom_files)) w))))"

text \<open>Lines 46 to 54. The \<^verbatim>\<open>publish\<close> call is recorded whether or not it raises.\<close>

definition notify_completion ::
  "manager \<Rightarrow> aws \<Rightarrow> string list \<Rightarrow> world \<Rightarrow> (exn + unit) \<times> world" where
  "notify_completion self a processed_files w =
     (let message = ''Processing completed for files: '' @ join '', '' processed_files;
          request = \<lparr>TopicArn = sns_topic_arn self, Message = message,
                     Subject = Some ''DICOM Processing Notification''\<rparr>;
          w1 = w\<lparr>sns_calls := sns_calls w @ [request]\<rparr>
      in case sns_publish a request of
           Inl e \<Rightarrow> (Inl e, w1)
         | Inr response \<Rightarrow> (Inr (), logging INFO NotificationSentForProcessed w1))"

text \<open>Lines 59 to 63: what \<^verbatim>\<open>run_pipeline\<close> does with the list it fetched.
  \<^verbatim>\<open>if dicom_files:\<close> tests that the list is not empty.\<close>

definition run_listed :: "manager \<Rightarrow> aws \<Rightarrow> pyval list \<Rightarrow> world \<Rightarrow> (exn + unit) \<times> world" where
  "run_listed self a dicom_files w =
     (if dicom_files \<noteq> [] then
        (case process_images dicom_files w of
           (Inl e, w2) \<Rightarrow> (Inl e, w2)
         | (Inr processed_files, w2) \<Rightarrow> notify_completion self a processed_files w2)
      else (Inr (), logging INFO NoDicomFiles w))"

text \<open>Lines 56 to 63. The keys \<^verbatim>\<open>fetch_dicom_files\<close> returns are strings.\<close>

definition run_pipeline :: "manager \<Rightarrow> aws \<Rightarrow> world \<Rightarrow> (exn + unit) \<times> world" where
  "run_pipeline self a w =
     (case fetch_dicom_files self a w of
        (Inl e, w1) \<Rightarrow> (Inl e, w1)
      | (Inr dicom_files, w1) \<Rightarrow> run_listed self a (map PStr dicom_files) w1)"

section \<open>\<^verbatim>\<open>MedicalDeviceSupportSystem\<close>\<close>

text \<open>Lines 17 to 28.\<close>

definition log_event :: "logmsg \<Rightarrow> string \<Rightarrow> world \<Rightarrow> world" where
  "log_event message lvl w =
     (if lvl = ''info'' then logging INFO message w
      else if lvl = ''warning'' then logging WARNING message w
      else if lvl = ''error'' then logging ERROR message w
      else if lvl = ''critical'' then logging CRITICAL message w
      else logging DEBUG message w)"

text \<open>
  Lines 49 to 59. The state of the \<^verbatim>\<open>try\<close> statement is the value to return
  (\<open>None\<close> for Python's \<^verbatim>\<open>None\<close>, which falling off the end returns) and the world.
\<close>

definition send_notification ::
  "aws \<Rightarrow> string \<Rightarrow> string \<Rightarrow> world \<Rightarrow> (exn + string option) \<times> world" where
  "send_notification a message topic_arn w =
     (let request = \<lparr>TopicArn = topic_arn, Message = message, Subject = None\<rparr> in
      case try_except
             (\<lambda>(ret, w0).
                let w1 = w0\<lparr>sns_calls := sns_calls w0 @ [request]\<rparr> in
                case sns_publish a request of
                  Inl e \<Rightarrow> (Some e, (ret, w1))
                | Inr response \<Rightarrow>
                    (None, (Some response,
                            log_event (NotificationSentTo topic_arn message) ''info'' w1)))
             (\<lambda>e (ret, w0). (None, (ret, log_event (ErrorSendingNotification e) ''error'' w0)))
             (None, w) of
        (None, (ret, w')) \<Rightarrow> (Inr ret, w')
      | (Some e, (ret, w')) \<Rightarrow> (Inl e, w'))"

text \<open>
  Lines 61 to 67. \<^verbatim>\<open>alarm['AlarmActions'][0]\<close> is evaluated before
  \<^verbatim>\<open>send_notification\<close> is entered and raises \<^verbatim>\<open>IndexError\<close> on an empty list;
  nothing in the method catches it.
\<close>

definition notify_alarm :: "aws \<Rightarrow> alarm \<Rightarrow> world stmt" where
  "notify_alarm a alarm w =
     (case AlarmActions alarm of
        [] \<Rightarrow> (Some IndexError, w)
      | target # rest \<Rightarrow>
          (case send_notification a (''Alarm '' @ AlarmName alarm @ '' triggered'') target w of
             (Inl e, w') \<Rightarrow> (Some e, w')
           | (Inr response, w') \<Rightarrow> (None, w')))"

definition monitor_system_health :: "aws \<Rightarrow> world \<Rightarrow> (exn + unit) \<times> world" where
  "monitor_system_health a w =
     (case cloudwatch_describe_alarms a ''ALARM'' of
        Inl e \<Rightarrow> (Inl e, w)
      | Inr metric_alarms \<Rightarrow>
          (case for_in metric_alarms (notify_alarm a) w of
             (None, w') \<Rightarrow> (Inr (), w')
           | (Some e, w') \<Rightarrow> (Inl e, w')))"

text \<open>Lines 69 to 86. The method has no \<^verbatim>\<open>return\<close> statement: when it does not raise
  it returns \<^verbatim>\<open>None\<close>.\<close>

definition audit_query :: string where
  "audit_query =
     ''fields @timestamp, @message | filter eventName like /ConsoleLogin/ and errorCode like /Failure/''"

definition audit_body :: "aws \<Rightarrow> world stmt" where
  "audit_body a w =
     (case logs_start_query a ''/aws/lambda/dicom-handler'' audit_query of
        Inl e \<Rightarrow> (Some e, w)
      | Inr query_id \<Rightarrow>
          (case logs_get_query_results a query_id of
             Inl e \<Rightarrow> (Some e, w)
           | Inr results \<Rightarrow>
               for_in results
                 (\<lambda>result w0. (None, log_event (UnusualAccessPattern result) ''warning'' w0)) w))"

definition audit_system_access :: "aws \<Rightarrow> world \<Rightarrow> (exn + pyval) \<times> world" where
  "audit_system_access a w =
     (case try_except (audit_body a)
             (\<lambda>e w0. (None, log_event (ErrorAuditing e) ''error'' w0)) w of
        (None, w') \<Rightarrow> (Inr PNone, w')
      | (Some e, w') \<Rightarrow> (Inl e, w'))"

text \<open>Lines 88 to 99.\<close>

definition auto_resolve_issues ::
  "aws \<Rightarrow> string \<Rightarrow> string \<Rightarrow> world \<Rightarrow> (exn + string option) \<times> world" where
  "auto_resolve_issues a function_name payload w =
     (case try_except
             (\<lambda>(ret, w0).
                case lambda_invoke a function_name ''Event'' payload of
                  Inl e \<Rightarrow> (Some e, (ret, w0))
                | Inr response \<Rightarrow>
                    (None, (Some response, log_event (InvokedLambda function_name) ''info'' w0)))
             (\<lambda>e (ret, w0). (None, (ret, log_event (ErrorInvokingLambda e) ''error'' w0)))
             (None, w) of
        (None, (ret, w')) \<Rightarrow> (Inr ret, w')
      | (Some e, (ret, w')) \<Rightarrow> (Inl e, w'))"

section \<open>Observing a run\<close>

text \<open>The log entries a run added to the world it started from.\<close>

definition emitted :: "world \<Rightarrow> world \<Rightarrow> (level \<times> logmsg) list" where
  "emitted w w' = drop (length (logged w)) (logged w')"

text \<open>
  \<^verbatim>\<open>process_images\<close> has no result record: what became of an asset shows only as the
  last log entry written for it, \<^verbatim>\<open>Processing complete\<close>, \<^verbatim>\<open>File already processed\<close> or
  \<^verbatim>\<open>Failed to process\<close>.
\<close>

datatype status = Succeeded | Failed exn | Skipped

fun entry_outcome :: "level \<times> logmsg \<Rightarrow> (pyval \<times> status) option" where
  "entry_outcome (lv, ProcessingComplete file) = Some (file, Succeeded)"
| "entry_outcome (lv, AlreadyProcessed file) = Some (file, Skipped)"
| "entry_outcome (lv, FailedToProcess file e) = Some (file, Failed e)"
| "entry_outcome (lv, m) = None"

definition outcomes :: "(level \<times> logmsg) list \<Rightarrow> (pyval \<times> status) list" where
  "outcomes entries = List.map_filter entry_outcome entries"

text \<open>
  What one pass of the loop body does, as a function of the asset alone: the entries it
  logs and the keys it appends to \<^verbatim>\<open>processed_files\<close>.
\<close>

definition asset_log :: "pyval \<Rightarrow> (level \<times> logmsg) list" where
  "asset_log file =
     emitted init_world
       (snd (snd (try_except (try_body file) (except_handler file) ([], init_world))))"

definition asset_output :: "pyval \<Rightarrow> string list" where
  "asset_output file =
     fst (snd (try_except (try_body file) (except_handler file) ([], init_world)))"

section \<open>Concrete services and inputs\<close>

definition example_manager :: manager where
  "example_manager =
     \<lparr>s3_bucket_name = ''my-dicom-bucket'',
      sns_topic_arn = ''arn:aws:sns:us-east-1:123456789012:MyTopic''\<rparr>"

text \<open>Every service answers; the bucket holds the given keys.\<close>

definition aws_with :: "string list option \<Rightarrow> alarm list \<Rightarrow> string list \<Rightarrow> aws" where
  "aws_with listing alarms rows =
     \<lparr>s3_list_objects_v2 = (\<lambda>bucket. Inr listing),
      sns_publish = (\<lambda>request. Inr ''msg-1''),
      cloudwatch_describe_alarms = (\<lambda>state. Inr alarms),
      logs_start_query = (\<lambda>grp query. Inr ''q-1''),
      logs_get_query_results = (\<lambda>query_id. Inr rows),
      lambda_invoke = (\<lambda>name kind payload. Inr ''accepted'')\<rparr>"

text \<open>Every service call raises.\<close>

definition aws_down :: aws where
  "aws_down =
     \<lparr>s3_list_objects_v2 = (\<lambda>bucket. Inl (ServiceError ''s3'')),
      sns_publish = (\<lambda>request. Inl (ServiceError ''sns'')),
      cloudwatch_describe_alarms = (\<lambda>state. Inl (ServiceError ''cloudwatch'')),
      logs_start_query = (\<lambda>grp query. Inl (ServiceError ''logs'')),
      logs_get_query_results = (\<lambda>query_id. Inl (ServiceError ''logs'')),
      lambda_invoke = (\<lambda>name kind payload. Inl (ServiceError ''lambda''))\<rparr>"

section \<open>The loop of \<^verbatim>\<open>process_images\<close>, one asset at a time\<close>

lemma outcomes_Nil: "outcomes [] = []"
  by (simp add: outcomes_def List.map_filter_def)

lemma outcomes_Cons:
  "outcomes (x # xs) =
     (case entry_outcome x of None \<Rightarrow> outcomes xs | Some r \<Rightarrow> r # outcomes xs)"
  by (simp add: outcomes_def List.map_filter_def split: option.splits)

lemma outcomes_append: "outcomes (xs @ ys) = outcomes xs @ outcomes ys"
  by (simp add: outcomes_def List.map_filter_def)

lemma upt_3: "[0..<3] = [0, 1, 2]"
  by (simp add: upt_rec)

lemma upt_5: "[0..<5] = [0, 1, 2, 3, 4]"
  by (simp add: upt_rec)

lemma length_stage_ops: "length (stage_ops file) = 20"
  by (simp add: stage_ops_def inner_ops_def upt_3 upt_5)

lemma outcomes_stage_ops: "outcomes (stage_ops file) = []"
  by (simp add: stage_ops_def inner_ops_def upt_3 upt_5 outcomes_Cons outcomes_Nil)

lemma info_stage_ops:
  "map snd (filter (\<lambda>(lv, m). lv = INFO) (stage_ops file)) =
     map (\<lambda>i. ApplyingOperation i file) [0..<5]"
  by (simp add: stage_ops_def inner_ops_def upt_3 upt_5)

text \<open>The body of the loop never raises, and its effect does not depend on the state.\<close>

lemma loop_body_char:
  "try_except (try_body file) (except_handler file) (pf, w) =
     (None, (pf @ asset_output file, w\<lparr>logged := logged w @ asset_log file\<rparr>))"
  by (cases "py_in ''processed'' file"; cases "py_add_str file ''_processed''")
     (simp_all add: try_except_def try_body_def except_handler_def asset_output_def
        asset_log_def emitted_def init_world_def logging_def Let_def)

lemma for_in_char:
  "for_in files (\<lambda>file. try_except (try_body file) (except_handler file)) (pf, w) =
     (None, (pf @ concat (map asset_output files),
             w\<lparr>logged := logged w @ concat (map asset_log files)\<rparr>))"
  by (induction files arbitrary: pf w) (simp_all add: loop_body_char)

lemma process_images_char:
  "process_images files w =
     (Inr (concat (map asset_output files)),
      w\<lparr>engine_runs := Suc (engine_runs w),
        logged := logged w @ concat (map asset_log files)\<rparr>)"
  by (simp add: process_images_def for_in_char)

lemma emitted_process_images:
  "emitted w (snd (process_images files w)) = concat (map asset_log files)"
  by (simp add: process_images_char emitted_def)

lemma asset_log_cases:
  "asset_log file =
     (case py_in ''processed'' file of
        Inl e \<Rightarrow> [(ERROR, FailedToProcess file e)]
      | Inr found \<Rightarrow>
          if \<not> found then
            stage_ops file @
              (case py_add_str file ''_processed'' of
                 Inl e \<Rightarrow> [(ERROR, FailedToProcess file e)]
               | Inr out \<Rightarrow> [(INFO, ProcessingComplete file)])
          else [(WARNING, AlreadyProcessed file)])"
  by (cases "py_in ''processed'' file"; cases "py_add_str file ''_processed''")
     (simp_all add: asset_log_def try_except_def try_body_def except_handler_def Let_def
        logging_def emitted_def init_world_def)

lemma asset_output_cases:
  "asset_output file =
     (case py_in ''processed'' file of
        Inl e \<Rightarrow> []
      | Inr found \<Rightarrow>
          if \<not> found then
            (case py_add_str file ''_processed'' of Inl e \<Rightarrow> [] | Inr out \<Rightarrow> [out])
          else [])"
  by (cases "py_in ''processed'' file"; cases "py_add_str file ''_processed''")
     (simp_all add: asset_output_def try_except_def try_body_def except_handler_def Let_def
        logging_def)

lemma asset_output_PStr:
  "asset_output (PStr k) = (if str_contains ''processed'' k then [] else [k @ ''_processed''])"
  by (simp add: asset_output_cases)

lemma asset_log_PStr:
  "asset_log (PStr k) =
     (if str_contains ''processed'' k then [(WARNING, AlreadyProcessed (PStr k))]
      else stage_ops (PStr k) @ [(INFO, ProcessingComplete (PStr k))])"
  by (simp add: asset_log_cases)

lemma outcomes_asset_log_fst: "map fst (outcomes (asset_log file)) = [file]"
  by (cases "py_in ''processed'' file"; cases "py_add_str file ''_processed''")
     (simp_all add: asset_log_cases outcomes_append outcomes_stage_ops outcomes_Cons
        outcomes_Nil)

lemma outcomes_asset_log_succeeded:
  "length (filter (\<lambda>(file, st). st = Succeeded) (outcomes (asset_log file))) =
     length (asset_output file)"
  by (cases "py_in ''processed'' file"; cases "py_add_str file ''_processed''")
     (simp_all add: asset_log_cases asset_output_cases outcomes_append outcomes_stage_ops
        outcomes_Cons outcomes_Nil)

lemma outcomes_batch_fst: "map fst (outcomes (concat (map asset_log files))) = files"
  by (induction files) (simp_all add: outcomes_Nil outcomes_append outcomes_asset_log_fst)

lemma outcomes_batch_succeeded:
  "length (filter (\<lambda>(file, st). st = Succeeded) (outcomes (concat (map asset_log files)))) =
     length (concat (map asset_output files))"
  by (induction files) (simp_all add: outcomes_Nil outcomes_append outcomes_asset_log_succeeded)

lemma length_asset_output: "length (asset_output file) \<le> 1"
  by (cases "py_in ''processed'' file"; cases "py_add_str file ''_processed''")
     (simp_all add: asset_output_cases)

lemma length_batch_output: "length (concat (map asset_output files)) \<le> length files"
proof (induction files)
  case Nil
  show ?case by simp
next
  case (Cons f fs)
  have "length (asset_output f) \<le> 1" by (rule length_asset_output)
  with Cons show ?case by simp
qed

lemma outcomes_asset_log_PStr:
  "outcomes (asset_log (PStr k)) =
     [(PStr k, if str_contains ''processed'' k then Skipped else Succeeded)]"
  by (simp add: asset_log_PStr outcomes_append outcomes_stage_ops outcomes_Cons outcomes_Nil)

lemma concat_map_if_single:
  "concat (map (\<lambda>x. if P x then [] else [f x]) xs) = map f (filter (\<lambda>x. \<not> P x) xs)"
  by (induction xs) simp_all

lemma batch_output_PStr:
  "concat (map asset_output (map PStr keys)) =
     map (\<lambda>k. k @ ''_processed'') (filter (\<lambda>k. \<not> str_contains ''processed'' k) keys)"
  by (simp add: comp_def asset_output_PStr concat_map_if_single)


text \<open>Python's substring test is the contiguous-sublist relation.\<close>

lemma str_contains_sublist: "str_contains needle hay \<longleftrightarrow> sublist needle hay"
  by (induction hay) (auto simp: sublist_Cons_right)

lemma str_contains_trans:
  "str_contains a b \<Longrightarrow> str_contains b c \<Longrightarrow> str_contains a c"
  using sublist_order.order_trans by (auto simp: str_contains_sublist)

lemma processed_in_suffix: "str_contains ''processed'' ''_processed''"
  by simp

section \<open>The Processing Engine\<close>

text \<open>
  Claim C1, as the specification has it: for an input of \<open>n\<close> assets the engine returns
  exactly \<open>n\<close> results, one per asset, in input order. \<^verbatim>\<open>process_images\<close> returns less:
  the output keys of the assets that succeeded, and nothing for a skipped or failed one.
  With the inputs \<^verbatim>\<open>a.dcm\<close> and \<^verbatim>\<open>c.dcm_processed\<close> it returns one string for two
  assets.
\<close>

theorem process_images_returns_fewer_counterexample:
  "fst (process_images [PStr ''a.dcm'', PStr ''c.dcm_processed''] init_world) =
     Inr [''a.dcm_processed'']
   \<and> length [''a.dcm_processed''] < length [PStr ''a.dcm'', PStr ''c.dcm_processed'']"
  by (simp add: process_images_char asset_output_PStr)

text \<open>
  Claim C1, amended: for every input list of strings, \<^verbatim>\<open>None\<close> and lists of strings,
  whatever mix of succeeded, skipped and failed assets it holds, \<^verbatim>\<open>process_images\<close> writes exactly one outcome entry per asset to the
  log, in input order, and returns normally a list holding one output key per succeeded
  asset, in input order and nothing else; so it returns at most \<open>n\<close> strings for \<open>n\<close>
  assets.
\<close>

theorem process_images_one_outcome_per_asset:
  "map fst (outcomes (emitted w (snd (process_images dicom_files w)))) = dicom_files
   \<and> fst (process_images dicom_files w) = Inr (concat (map asset_output dicom_files))
   \<and> length (concat (map asset_output dicom_files)) =
       length (filter (\<lambda>(file, st). st = Succeeded)
                 (outcomes (emitted w (snd (process_images dicom_files w)))))
   \<and> length (concat (map asset_output dicom_files)) \<le> length dicom_files"
proof -
  have "map fst (outcomes (emitted w (snd (process_images dicom_files w)))) = dicom_files"
    by (simp add: emitted_process_images outcomes_batch_fst)
  moreover have "fst (process_images dicom_files w) =
      Inr (concat (map asset_output dicom_files))"
    by (simp add: process_images_char)
  moreover have "length (concat (map asset_output dicom_files)) =
       length (filter (\<lambda>(file, st). st = Succeeded)
                 (outcomes (emitted w (snd (process_images dicom_files w)))))"
    by (simp add: emitted_process_images outcomes_batch_succeeded)
  moreover have "length (concat (map asset_output dicom_files)) \<le> length dicom_files"
    by (rule length_batch_output)
  ultimately show ?thesis
    by blast
qed

theorem process_images_one_outcome_per_asset_witness:
  "map fst (outcomes (emitted init_world
      (snd (process_images [PStr ''a.dcm'', PNone, PStr ''c.dcm_processed''] init_world)))) =
     [PStr ''a.dcm'', PNone, PStr ''c.dcm_processed'']
   \<and> fst (process_images [PStr ''a.dcm'', PNone, PStr ''c.dcm_processed''] init_world) =
       Inr [''a.dcm_processed'']"
  using process_images_one_outcome_per_asset
          [of init_world "[PStr ''a.dcm'', PNone, PStr ''c.dcm_processed'']"]
  by (simp add: asset_output_cases)



text \<open>
  Claim C3, as the specification has it, with the marker \<^verbatim>\<open>_processed\<close> that the
  engine appends: a key that does not carry the marker has the stages run. The test of
  line 28 looks for the text \<^verbatim>\<open>processed\<close>, without the underscore: the key
  \<^verbatim>\<open>unprocessed.dcm\<close>, which \<^verbatim>\<open>fetch_dicom_files\<close> lists, does not carry the marker
  and is skipped all the same, with no stage run and no output key.
\<close>

theorem process_images_skips_unmarked_key_counterexample:
  "\<not> str_contains ''_processed'' ''unprocessed.dcm''
   \<and> endswith ''unprocessed.dcm'' ''.dcm''
   \<and> fst (process_images [PStr ''unprocessed.dcm''] init_world) = Inr []
   \<and> emitted init_world (snd (process_images [PStr ''unprocessed.dcm''] init_world)) =
       [(WARNING, AlreadyProcessed (PStr ''unprocessed.dcm''))]"
  by (simp add: process_images_char emitted_def asset_output_PStr asset_log_PStr
        endswith_def)

text \<open>
  Claim C3, amended: a key that holds the text \<^verbatim>\<open>processed\<close>, as every key that
  carries the marker \<^verbatim>\<open>_processed\<close> does, gets the warning \<^verbatim>\<open>File already processed\<close>
  and nothing else: no stage is logged for it and no output key is returned. A string
  key that does not hold the text \<^verbatim>\<open>processed\<close> gets the twenty entries of the five
  stages, then \<^verbatim>\<open>Processing complete\<close>, and its output key is returned. In a batch of
  string keys each key is treated so, in input order.
\<close>

theorem process_images_skips_keys_holding_processed:
  "(str_contains ''_processed'' k \<longrightarrow> str_contains ''processed'' k)
   \<and> (str_contains ''processed'' k \<longrightarrow>
        fst (process_images [PStr k] w) = Inr []
        \<and> emitted w (snd (process_images [PStr k] w)) =
            [(WARNING, AlreadyProcessed (PStr k))])
   \<and> (\<not> str_contains ''processed'' k \<longrightarrow>
        fst (process_images [PStr k] w) = Inr [k @ ''_processed'']
        \<and> emitted w (snd (process_images [PStr k] w)) =
            stage_ops (PStr k) @ [(INFO, ProcessingComplete (PStr k))])
   \<and> length (stage_ops (PStr k)) = 20
   \<and> map snd (filter (\<lambda>(lv, m). lv = INFO) (stage_ops (PStr k))) =
       map (\<lambda>i. ApplyingOperation i (PStr k)) [0..<5]
   \<and> emitted w (snd (process_images (map PStr keys) w)) =
       concat (map (\<lambda>k. if str_contains ''processed'' k
                          then [(WARNING, AlreadyProcessed (PStr k))]
                          else stage_ops (PStr k) @ [(INFO, ProcessingComplete (PStr k))])
                 keys)
   \<and> outcomes (emitted w (snd (process_images (map PStr keys) w))) =
       map (\<lambda>k. (PStr k, if str_contains ''processed'' k then Skipped else Succeeded)) keys"
proof -
  have sub: "str_contains ''_processed'' k \<longrightarrow> str_contains ''processed'' k"
    using str_contains_trans [OF processed_in_suffix] by blast
  have skip: "fst (process_images [PStr k] w) = Inr []
        \<and> emitted w (snd (process_images [PStr k] w)) =
            [(WARNING, AlreadyProcessed (PStr k))]"
    if "str_contains ''processed'' k"
    using that by (simp add: process_images_char emitted_def asset_output_PStr asset_log_PStr)
  have run: "fst (process_images [PStr k] w) = Inr [k @ ''_processed'']
        \<and> emitted w (snd (process_images [PStr k] w)) =
            stage_ops (PStr k) @ [(INFO, ProcessingComplete (PStr k))]"
    if "\<not> str_contains ''processed'' k"
    using that by (simp add: process_images_char emitted_def asset_output_PStr asset_log_PStr)
  have trace: "emitted w (snd (process_images (map PStr keys) w)) =
     concat (map (\<lambda>k. if str_contains ''processed'' k
                        then [(WARNING, AlreadyProcessed (PStr k))]
                        else stage_ops (PStr k) @ [(INFO, ProcessingComplete (PStr k))]) keys)"
    by (simp add: emitted_process_images comp_def asset_log_PStr)
  have outs: "outcomes (emitted w (snd (process_images (map PStr keys) w))) =
       map (\<lambda>k. (PStr k, if str_contains ''processed'' k then Skipped else Succeeded)) keys"
    by (induction keys)
       (simp_all add: emitted_process_images outcomes_Nil outcomes_append
          outcomes_asset_log_PStr)
  show ?thesis
    using sub skip run trace outs length_stage_ops [of "PStr k"] info_stage_ops [of "PStr k"]
    by blast
qed

theorem process_images_skips_keys_holding_processed_witness:
  "str_contains ''_processed'' ''c.dcm_processed''
   \<and> str_contains ''processed'' ''c.dcm_processed''
   \<and> fst (process_images [PStr ''c.dcm_processed''] init_world) = Inr []
   \<and> emitted init_world (snd (process_images [PStr ''c.dcm_processed''] init_world)) =
       [(WARNING, AlreadyProcessed (PStr ''c.dcm_processed''))]
   \<and> \<not> str_contains ''processed'' ''a.dcm''
   \<and> fst (process_images [PStr ''a.dcm''] init_world) = Inr [''a.dcm_processed'']
   \<and> emitted init_world (snd (process_images [PStr ''a.dcm''] init_world)) =
       stage_ops (PStr ''a.dcm'') @ [(INFO, ProcessingComplete (PStr ''a.dcm''))]"
proof -
  have m: "str_contains ''_processed'' ''c.dcm_processed''"
    by simp
  have n: "\<not> str_contains ''processed'' ''a.dcm''"
    by simp
  from m process_images_skips_keys_holding_processed [of "''c.dcm_processed''" init_world "[]"]
  have c1: "str_contains ''processed'' ''c.dcm_processed''
      \<and> fst (process_images [PStr ''c.dcm_processed''] init_world) = Inr []
      \<and> emitted init_world (snd (process_images [PStr ''c.dcm_processed''] init_world)) =
          [(WARNING, AlreadyProcessed (PStr ''c.dcm_processed''))]"
    by blast
  from n process_images_skips_keys_holding_processed [of "''a.dcm''" init_world "[]"]
  have c2: "fst (process_images [PStr ''a.dcm''] init_world) = Inr [''a.dcm_processed'']
      \<and> emitted init_world (snd (process_images [PStr ''a.dcm''] init_world)) =
          stage_ops (PStr ''a.dcm'') @ [(INFO, ProcessingComplete (PStr ''a.dcm''))]"
    by simp
  show ?thesis
    using m n c1 c2 by blast
qed

section \<open>Listing, notification and the orchestrator\<close>

lemma notify_completion_calls:
  "sns_calls (snd (notify_completion self a processed_files w)) =
     sns_calls w @
       [\<lparr>TopicArn = sns_topic_arn self,
         Message = ''Processing completed for files: '' @ join '', '' processed_files,
         Subject = Some ''DICOM Processing Notification''\<rparr>]"
  by (simp add: notify_completion_def Let_def logging_def split: sum.splits)

lemma notify_completion_engine_runs:
  "engine_runs (snd (notify_completion self a processed_files w)) = engine_runs w"
  by (simp add: notify_completion_def Let_def logging_def split: sum.splits)

lemma run_listed_Nil: "run_listed self a [] w = (Inr (), logging INFO NoDicomFiles w)"
  by (simp add: run_listed_def)

lemma run_listed_nonempty:
  "files \<noteq> [] \<Longrightarrow>
     run_listed self a files w =
       notify_completion self a (concat (map asset_output files))
         (w\<lparr>engine_runs := Suc (engine_runs w),
            logged := logged w @ concat (map asset_log files)\<rparr>)"
  by (simp add: run_listed_def process_images_char)

lemma run_listed_nonempty_calls:
  "files \<noteq> [] \<Longrightarrow>
     sns_calls (snd (run_listed self a files w)) =
       sns_calls w @
         [\<lparr>TopicArn = sns_topic_arn self,
           Message = ''Processing completed for files: '' @
                     join '', '' (concat (map asset_output files)),
           Subject = Some ''DICOM Processing Notification''\<rparr>]"
  by (simp add: run_listed_nonempty notify_completion_calls)

lemma run_listed_nonempty_engine_runs:
  "files \<noteq> [] \<Longrightarrow> engine_runs (snd (run_listed self a files w)) = Suc (engine_runs w)"
  by (simp add: run_listed_nonempty notify_completion_engine_runs)

lemma fetch_dicom_files_world:
  "fetch_dicom_files self a w = (r, w1) \<Longrightarrow>
     sns_calls w1 = sns_calls w \<and> engine_runs w1 = engine_runs w"
  by (auto simp: fetch_dicom_files_def Let_def logging_def split: sum.splits option.splits)

lemma run_pipeline_fetched:
  "fetch_dicom_files self a w = (Inr dicom_files, w1) \<Longrightarrow>
     run_pipeline self a w = run_listed self a (map PStr dicom_files) w1"
  by (simp add: run_pipeline_def)

lemma fetch_example:
  "fetch_dicom_files self (aws_with (Some keys) alarms rows) w =
     (Inr (filter (\<lambda>key. endswith key ''.dcm'') keys),
      logging INFO (FoundDicomFiles (length (filter (\<lambda>key. endswith key ''.dcm'') keys))) w)"
  by (simp add: fetch_dicom_files_def aws_with_def Let_def)

text \<open>
  Claim C5: when \<^verbatim>\<open>fetch_dicom_files\<close> returns the empty list, \<^verbatim>\<open>run_pipeline\<close> only
  logs \<^verbatim>\<open>No DICOM files to process.\<close>: \<^verbatim>\<open>process_images\<close> is not entered and nothing
  is published. When it returns a list that is not empty, \<^verbatim>\<open>process_images\<close> is entered
  once and \<^verbatim>\<open>publish\<close> is called exactly once.
\<close>

theorem run_pipeline_notifies_once:
  "(fetch_dicom_files self a w = (Inr [], w1) \<longrightarrow>
      run_pipeline self a w = (Inr (), logging INFO NoDicomFiles w1)
      \<and> engine_runs (snd (run_pipeline self a w)) = engine_runs w
      \<and> sns_calls (snd (run_pipeline self a w)) = sns_calls w)
   \<and> (fetch_dicom_files self a w = (Inr dicom_files, w1) \<and> dicom_files \<noteq> [] \<longrightarrow>
      engine_runs (snd (run_pipeline self a w)) = Suc (engine_runs w)
      \<and> length (sns_calls (snd (run_pipeline self a w))) = Suc (length (sns_calls w)))"
proof (intro conjI impI)
  assume f: "fetch_dicom_files self a w = (Inr [], w1)"
  from f show r: "run_pipeline self a w = (Inr (), logging INFO NoDicomFiles w1)"
    by (simp add: run_pipeline_def run_listed_Nil)
  from fetch_dicom_files_world [OF f] r
  show "engine_runs (snd (run_pipeline self a w)) = engine_runs w"
    by (simp add: logging_def)
  from fetch_dicom_files_world [OF f] r
  show "sns_calls (snd (run_pipeline self a w)) = sns_calls w"
    by (simp add: logging_def)
next
  assume "fetch_dicom_files self a w = (Inr dicom_files, w1) \<and> dicom_files \<noteq> []"
  then have f: "fetch_dicom_files self a w = (Inr dicom_files, w1)"
    and ne: "map PStr dicom_files \<noteq> []"
    by simp_all
  from fetch_dicom_files_world [OF f]
  show "engine_runs (snd (run_pipeline self a w)) = Suc (engine_runs w)"
    by (simp add: run_pipeline_fetched [OF f] run_listed_nonempty_engine_runs [OF ne])
  from fetch_dicom_files_world [OF f]
  show "length (sns_calls (snd (run_pipeline self a w))) = Suc (length (sns_calls w))"
    by (simp add: run_pipeline_fetched [OF f] run_listed_nonempty_calls [OF ne])
qed

theorem run_pipeline_notifies_once_witness:
  "fetch_dicom_files example_manager (aws_with (Some [''readme.txt'']) [] []) init_world =
     (Inr [], logging INFO (FoundDicomFiles 0) init_world)
   \<and> sns_calls (snd (run_pipeline example_manager (aws_with (Some [''readme.txt'']) [] [])
        init_world)) = []
   \<and> engine_runs (snd (run_pipeline example_manager (aws_with (Some [''readme.txt'']) [] [])
        init_world)) = 0
   \<and> fetch_dicom_files example_manager (aws_with (Some [''a.dcm'', ''notes.txt'']) [] [])
        init_world = (Inr [''a.dcm''], logging INFO (FoundDicomFiles 1) init_world)
   \<and> length (sns_calls (snd (run_pipeline example_manager
        (aws_with (Some [''a.dcm'', ''notes.txt'']) [] []) init_world))) = 1
   \<and> engine_runs (snd (run_pipeline example_manager
        (aws_with (Some [''a.dcm'', ''notes.txt'']) [] []) init_world)) = 1"
proof -
  have e: "fetch_dicom_files example_manager (aws_with (Some [''readme.txt'']) [] [])
             init_world = (Inr [], logging INFO (FoundDicomFiles 0) init_world)"
    by (simp add: fetch_example endswith_def)
  have n: "fetch_dicom_files example_manager (aws_with (Some [''a.dcm'', ''notes.txt'']) [] [])
             init_world = (Inr [''a.dcm''], logging INFO (FoundDicomFiles 1) init_world)"
    by (simp add: fetch_example endswith_def)
  from e run_pipeline_notifies_once
        [of example_manager "aws_with (Some [''readme.txt'']) [] []" init_world
            "logging INFO (FoundDicomFiles 0) init_world" "[]"]
  have c1: "engine_runs (snd (run_pipeline example_manager
                (aws_with (Some [''readme.txt'']) [] []) init_world)) = engine_runs init_world
          \<and> sns_calls (snd (run_pipeline example_manager
                (aws_with (Some [''readme.txt'']) [] []) init_world)) = sns_calls init_world"
    by blast
  have ne: "[''a.dcm''] \<noteq> []"
    by simp
  from n ne run_pipeline_notifies_once
        [of example_manager "aws_with (Some [''a.dcm'', ''notes.txt'']) [] []" init_world
            "logging INFO (FoundDicomFiles 1) init_world" "[''a.dcm'']"]
  have c2: "engine_runs (snd (run_pipeline example_manager
                (aws_with (Some [''a.dcm'', ''notes.txt'']) [] []) init_world)) =
              Suc (engine_runs init_world)
          \<and> length (sns_calls (snd (run_pipeline example_manager
                (aws_with (Some [''a.dcm'', ''notes.txt'']) [] []) init_world))) =
              Suc (length (sns_calls init_world))"
    by blast
  have i: "engine_runs init_world = 0" "sns_calls init_world = []"
    by (simp_all add: init_world_def)
  show ?thesis
    using e n c1 c2 by (simp add: i)
qed

text \<open>
  Claim C6: a string key without the text \<^verbatim>\<open>processed\<close> yields the output key
  \<^verbatim>\<open>key + '_processed'\<close>, and the message published lists, joined by a comma and a
  space, exactly the keys \<^verbatim>\<open>process_images\<close> returned. For the assets \<^verbatim>\<open>a.dcm\<close>,
  \<^verbatim>\<open>b.dcm\<close> and \<^verbatim>\<open>c.dcm_processed\<close> the first two succeed, the third is skipped, and
  the message lists \<^verbatim>\<open>a.dcm_processed, b.dcm_processed\<close>.
\<close>

theorem output_keys_and_notification_message:
  "fst (process_images (map PStr keys) w) =
     Inr (map (\<lambda>k. k @ ''_processed'') (filter (\<lambda>k. \<not> str_contains ''processed'' k) keys))
   \<and> sns_calls (snd (notify_completion self a processed_files w)) =
       sns_calls w @
         [\<lparr>TopicArn = sns_topic_arn self,
           Message = ''Processing completed for files: '' @ join '', '' processed_files,
           Subject = Some ''DICOM Processing Notification''\<rparr>]
   \<and> (keys \<noteq> [] \<longrightarrow>
       map Message (sns_calls (snd (run_listed self a (map PStr keys) w))) =
         map Message (sns_calls w) @
           [''Processing completed for files: '' @
            join '', '' (map (\<lambda>k. k @ ''_processed'')
                           (filter (\<lambda>k. \<not> str_contains ''processed'' k) keys))])
   \<and> fst (process_images [PStr ''a.dcm'', PStr ''b.dcm'', PStr ''c.dcm_processed''] init_world) =
       Inr [''a.dcm_processed'', ''b.dcm_processed'']
   \<and> outcomes (emitted init_world
        (snd (process_images [PStr ''a.dcm'', PStr ''b.dcm'', PStr ''c.dcm_processed'']
                init_world))) =
       [(PStr ''a.dcm'', Succeeded), (PStr ''b.dcm'', Succeeded),
        (PStr ''c.dcm_processed'', Skipped)]
   \<and> map Message (sns_calls (snd (run_listed self a
        [PStr ''a.dcm'', PStr ''b.dcm'', PStr ''c.dcm_processed''] init_world))) =
       [''Processing completed for files: a.dcm_processed, b.dcm_processed'']"
proof -
  have ret: "fst (process_images (map PStr keys) w) =
     Inr (map (\<lambda>k. k @ ''_processed'') (filter (\<lambda>k. \<not> str_contains ''processed'' k) keys))"
    unfolding process_images_char batch_output_PStr by simp
  have msg: "map Message (sns_calls (snd (run_listed self a (map PStr keys) w))) =
         map Message (sns_calls w) @
           [''Processing completed for files: '' @
            join '', '' (map (\<lambda>k. k @ ''_processed'')
                           (filter (\<lambda>k. \<not> str_contains ''processed'' k) keys))]"
    if "keys \<noteq> []"
  proof -
    from that have "map PStr keys \<noteq> []" by simp
    from run_listed_nonempty_calls [OF this] show ?thesis
      unfolding batch_output_PStr by simp
  qed
  have ex1: "fst (process_images [PStr ''a.dcm'', PStr ''b.dcm'', PStr ''c.dcm_processed'']
                    init_world) = Inr [''a.dcm_processed'', ''b.dcm_processed'']"
    by (simp add: process_images_char asset_output_PStr)
  have ex2: "outcomes (emitted init_world
        (snd (process_images [PStr ''a.dcm'', PStr ''b.dcm'', PStr ''c.dcm_processed'']
                init_world))) =
       [(PStr ''a.dcm'', Succeeded), (PStr ''b.dcm'', Succeeded),
        (PStr ''c.dcm_processed'', Skipped)]"
    by (simp add: emitted_process_images outcomes_append outcomes_asset_log_PStr)
  have ex3: "map Message (sns_calls (snd (run_listed self a
        [PStr ''a.dcm'', PStr ''b.dcm'', PStr ''c.dcm_processed''] init_world))) =
       [''Processing completed for files: a.dcm_processed, b.dcm_processed'']"
    by (simp add: run_listed_nonempty_calls asset_output_PStr init_world_def)
  show ?thesis
    using ret msg ex1 ex2 ex3 notify_completion_calls by blast
qed

theorem output_keys_and_notification_message_witness:
  "[''x.dcm''] \<noteq> []
   \<and> fst (process_images (map PStr [''x.dcm'']) init_world) = Inr [''x.dcm_processed'']
   \<and> map Message (sns_calls (snd (run_listed example_manager aws_down (map PStr [''x.dcm''])
        init_world))) = [''Processing completed for files: x.dcm_processed'']"
  using output_keys_and_notification_message
          [of "[''x.dcm'']" init_world example_manager aws_down "[]"]
  by (simp add: init_world_def)

text \<open>
  Claim C7: when \<^verbatim>\<open>list_objects_v2\<close> raises, \<^verbatim>\<open>fetch_dicom_files\<close> raises the same
  exception and returns no list, and \<^verbatim>\<open>run_pipeline\<close> raises it in turn, leaving the
  world as it found it: \<^verbatim>\<open>process_images\<close> is not entered and nothing is published.
\<close>

theorem run_pipeline_aborts_when_listing_fails:
  assumes "s3_list_objects_v2 a (s3_bucket_name self) = Inl e"
  shows "fetch_dicom_files self a w = (Inl e, w)
       \<and> run_pipeline self a w = (Inl e, w)
       \<and> engine_runs (snd (run_pipeline self a w)) = engine_runs w
       \<and> sns_calls (snd (run_pipeline self a w)) = sns_calls w"
  using assms by (simp add: fetch_dicom_files_def run_pipeline_def)

theorem run_pipeline_aborts_when_listing_fails_witness:
  "s3_list_objects_v2 aws_down (s3_bucket_name example_manager) = Inl (ServiceError ''s3'')
   \<and> fetch_dicom_files example_manager aws_down init_world =
       (Inl (ServiceError ''s3''), init_world)
   \<and> run_pipeline example_manager aws_down init_world = (Inl (ServiceError ''s3''), init_world)"
proof -
  have h: "s3_list_objects_v2 aws_down (s3_bucket_name example_manager) =
             Inl (ServiceError ''s3'')"
    by (simp add: aws_down_def)
  show ?thesis
    using h run_pipeline_aborts_when_listing_fails [OF h, of init_world] by simp
qed

text \<open>
  Claim C10: a fetched list that is not empty and in which no asset succeeds still leads
  to exactly one \<^verbatim>\<open>publish\<close> call, whose message lists no key. The keys fetched are
  strings, on which the \<^verbatim>\<open>try\<close> body never raises: no asset of a fetched list succeeds
  exactly when every key holds the text \<^verbatim>\<open>processed\<close>, as every key carrying the
  marker \<^verbatim>\<open>_processed\<close> does.
\<close>

theorem run_pipeline_publishes_empty_list:
  "(fetch_dicom_files self a w = (Inr dicom_files, w1) \<and> dicom_files \<noteq> [] \<and>
      (\<forall>k \<in> set dicom_files. str_contains ''processed'' k) \<longrightarrow>
        sns_calls (snd (run_pipeline self a w)) =
          sns_calls w @
            [\<lparr>TopicArn = sns_topic_arn self, Message = ''Processing completed for files: '',
              Subject = Some ''DICOM Processing Notification''\<rparr>])
   \<and> (fetch_dicom_files self a w = (Inr dicom_files, w1) \<and> dicom_files \<noteq> [] \<and>
      fst (process_images (map PStr dicom_files) w1) = Inr [] \<longrightarrow>
        sns_calls (snd (run_pipeline self a w)) =
          sns_calls w @
            [\<lparr>TopicArn = sns_topic_arn self, Message = ''Processing completed for files: '',
              Subject = Some ''DICOM Processing Notification''\<rparr>])
   \<and> (fst (process_images (map PStr keys) w) = Inr [] \<longleftrightarrow>
        (\<forall>k \<in> set keys. str_contains ''processed'' k))
   \<and> (\<forall>k \<in> set keys. fst (try_body (PStr k) (processed_files, w)) = None)
   \<and> (str_contains ''_processed'' k \<longrightarrow> str_contains ''processed'' k)"
proof -
  have iff: "fst (process_images (map PStr ks) w0) = Inr [] \<longleftrightarrow>
        (\<forall>k \<in> set ks. str_contains ''processed'' k)" for ks w0
    unfolding process_images_char batch_output_PStr by (simp add: filter_empty_conv)
  have noraise: "\<forall>k \<in> set keys. fst (try_body (PStr k) (processed_files, w)) = None"
    by (simp add: try_body_def Let_def)
  have sub: "str_contains ''_processed'' k \<longrightarrow> str_contains ''processed'' k"
    using str_contains_trans [OF processed_in_suffix] by blast
  have none: "sns_calls (snd (run_pipeline self a w)) =
          sns_calls w @
            [\<lparr>TopicArn = sns_topic_arn self, Message = ''Processing completed for files: '',
              Subject = Some ''DICOM Processing Notification''\<rparr>]"
    if f: "fetch_dicom_files self a w = (Inr dicom_files, w1)"
      and ne: "dicom_files \<noteq> []"
      and out: "fst (process_images (map PStr dicom_files) w1) = Inr []"
  proof -
    from ne have ne': "map PStr dicom_files \<noteq> []" by simp
    from out have e: "concat (map asset_output (map PStr dicom_files)) = []"
      unfolding process_images_char by simp
    have "sns_calls (snd (run_listed self a (map PStr dicom_files) w1)) =
          sns_calls w1 @
            [\<lparr>TopicArn = sns_topic_arn self, Message = ''Processing completed for files: '',
              Subject = Some ''DICOM Processing Notification''\<rparr>]"
      unfolding run_listed_nonempty_calls [OF ne'] e by simp
    with fetch_dicom_files_world [OF f] show ?thesis
      by (simp add: run_pipeline_fetched [OF f])
  qed
  have marked: "sns_calls (snd (run_pipeline self a w)) =
          sns_calls w @
            [\<lparr>TopicArn = sns_topic_arn self, Message = ''Processing completed for files: '',
              Subject = Some ''DICOM Processing Notification''\<rparr>]"
    if f: "fetch_dicom_files self a w = (Inr dicom_files, w1)"
      and ne: "dicom_files \<noteq> []"
      and all: "\<forall>k \<in> set dicom_files. str_contains ''processed'' k"
    using none [OF f ne] all iff [of dicom_files w1] by blast
  show ?thesis
    using none marked iff [of keys w] noraise sub by blast
qed

theorem run_pipeline_publishes_empty_list_witness:
  "fetch_dicom_files example_manager (aws_with (Some [''scan_processed.dcm'']) [] [])
     init_world = (Inr [''scan_processed.dcm''], logging INFO (FoundDicomFiles 1) init_world)
   \<and> [''scan_processed.dcm''] \<noteq> []
   \<and> str_contains ''processed'' ''scan_processed.dcm''
   \<and> fst (process_images (map PStr [''scan_processed.dcm''])
        (logging INFO (FoundDicomFiles 1) init_world)) = Inr []
   \<and> sns_calls (snd (run_pipeline example_manager
        (aws_with (Some [''scan_processed.dcm'']) [] []) init_world)) =
       [\<lparr>TopicArn = ''arn:aws:sns:us-east-1:123456789012:MyTopic'',
         Message = ''Processing completed for files: '',
         Subject = Some ''DICOM Processing Notification''\<rparr>]"
proof -
  have f: "fetch_dicom_files example_manager (aws_with (Some [''scan_processed.dcm'']) [] [])
     init_world = (Inr [''scan_processed.dcm''], logging INFO (FoundDicomFiles 1) init_world)"
    by (simp add: fetch_example endswith_def)
  have m: "\<forall>k \<in> set [''scan_processed.dcm'']. str_contains ''processed'' k"
    by simp
  have p: "fst (process_images (map PStr [''scan_processed.dcm''])
        (logging INFO (FoundDicomFiles 1) init_world)) = Inr []"
    by (simp add: process_images_char asset_output_PStr)
  note t = run_pipeline_publishes_empty_list
        [of example_manager "aws_with (Some [''scan_processed.dcm'']) [] []" init_world
            "[''scan_processed.dcm'']" "logging INFO (FoundDicomFiles 1) init_world"
            "[''scan_processed.dcm'']" "[]" "''scan_processed.dcm''"]
  from f m t
  have c: "sns_calls (snd (run_pipeline example_manager
        (aws_with (Some [''scan_processed.dcm'']) [] []) init_world)) =
       sns_calls init_world @
         [\<lparr>TopicArn = sns_topic_arn example_manager,
           Message = ''Processing completed for files: '',
           Subject = Some ''DICOM Processing Notification''\<rparr>]"
    by blast
  show ?thesis
    using f p c by (simp add: init_world_def example_manager_def)
qed

section \<open>The support system\<close>

lemma log_event_levels:
  "log_event m ''info'' w = logging INFO m w"
  "log_event m ''warning'' w = logging WARNING m w"
  "log_event m ''error'' w = logging ERROR m w"
  by (simp_all add: log_event_def)

lemma send_notification_char:
  "send_notification a message topic_arn w =
     (case sns_publish a \<lparr>TopicArn = topic_arn, Message = message, Subject = None\<rparr> of
        Inl e \<Rightarrow>
          (Inr None,
           logging ERROR (ErrorSendingNotification e)
             (w\<lparr>sns_calls := sns_calls w @
                  [\<lparr>TopicArn = topic_arn, Message = message, Subject = None\<rparr>]\<rparr>))
      | Inr response \<Rightarrow>
          (Inr (Some response),
           logging INFO (NotificationSentTo topic_arn message)
             (w\<lparr>sns_calls := sns_calls w @
                  [\<lparr>TopicArn = topic_arn, Message = message, Subject = None\<rparr>]\<rparr>)))"
  by (simp add: send_notification_def try_except_def Let_def log_event_levels
        split: sum.splits)

lemma notify_alarm_calls:
  "AlarmActions alarm = target # rest \<Longrightarrow>
     fst (notify_alarm a alarm w) = None
     \<and> sns_calls (snd (notify_alarm a alarm w)) =
         sns_calls w @
           [\<lparr>TopicArn = target, Message = ''Alarm '' @ AlarmName alarm @ '' triggered'',
             Subject = None\<rparr>]"
  by (simp add: notify_alarm_def send_notification_char logging_def split: sum.splits)

text \<open>
  When every alarm returned has at least one action, the sweep publishes once per alarm,
  in order, to the first action of the alarm, and returns normally.
\<close>

lemma for_in_notify_alarm:
  "\<forall>alarm \<in> set alarms. AlarmActions alarm \<noteq> [] \<Longrightarrow>
     fst (for_in alarms (notify_alarm a) w) = None
     \<and> sns_calls (snd (for_in alarms (notify_alarm a) w)) =
         sns_calls w @
           map (\<lambda>alarm. \<lparr>TopicArn = hd (AlarmActions alarm),
                          Message = ''Alarm '' @ AlarmName alarm @ '' triggered'',
                          Subject = None\<rparr>) alarms"
proof (induction alarms arbitrary: w)
  case Nil
  show ?case by simp
next
  case (Cons al als)
  then obtain target rest where acts: "AlarmActions al = target # rest"
    by (cases "AlarmActions al") auto
  obtain w' where step: "notify_alarm a al w = (None, w')"
    using notify_alarm_calls [OF acts, of a w] by (cases "notify_alarm a al w") auto
  with notify_alarm_calls [OF acts, of a w]
  have calls: "sns_calls w' =
      sns_calls w @
        [\<lparr>TopicArn = target, Message = ''Alarm '' @ AlarmName al @ '' triggered'',
          Subject = None\<rparr>]"
    by simp
  from Cons.prems have "\<forall>alarm \<in> set als. AlarmActions alarm \<noteq> []"
    by simp
  from Cons.IH [OF this, of w'] show ?case
    by (simp add: step calls acts)
qed

lemma monitor_system_health_all_actions:
  assumes "cloudwatch_describe_alarms a ''ALARM'' = Inr alarms"
    and "\<forall>alarm \<in> set alarms. AlarmActions alarm \<noteq> []"
  shows "fst (monitor_system_health a w) = Inr ()
       \<and> sns_calls (snd (monitor_system_health a w)) =
           sns_calls w @
             map (\<lambda>alarm. \<lparr>TopicArn = hd (AlarmActions alarm),
                            Message = ''Alarm '' @ AlarmName alarm @ '' triggered'',
                            Subject = None\<rparr>) alarms"
proof -
  obtain w' where run: "for_in alarms (notify_alarm a) w = (None, w')"
    using for_in_notify_alarm [OF assms(2), of a w]
    by (cases "for_in alarms (notify_alarm a) w") auto
  with for_in_notify_alarm [OF assms(2), of a w] show ?thesis
    by (simp add: monitor_system_health_def assms(1))
qed

text \<open>
  Claim C4 says that an alarm with no action is passed over. The sweep instead raises
  \<^verbatim>\<open>IndexError\<close> at that alarm, out of \<^verbatim>\<open>monitor_system_health\<close>, and the alarms after
  it are not notified: with a first alarm without actions and a second one with an
  action, nothing is published.
\<close>

theorem monitor_system_health_raises_on_alarm_without_action:
  "monitor_system_health
     (aws_with None
        [\<lparr>AlarmName = ''DiskFull'', AlarmActions = []\<rparr>,
         \<lparr>AlarmName = ''HighCPUUtilization'',
          AlarmActions = [''arn:aws:sns:us-west-2:123456789012:alert-topic'']\<rparr>] [])
     init_world = (Inl IndexError, init_world)"
  by (simp add: monitor_system_health_def aws_with_def notify_alarm_def)

text \<open>
  Claim C8, as the specification has it: a failed scan returns an empty sequence of
  findings. \<^verbatim>\<open>audit_system_access\<close> has no \<^verbatim>\<open>return\<close> statement: when the query fails
  it returns \<^verbatim>\<open>None\<close>, which is not an empty list.
\<close>

theorem audit_system_access_returns_none_counterexample:
  "audit_system_access aws_down init_world =
     (Inr PNone, logging ERROR (ErrorAuditing (ServiceError ''logs'')) init_world)
   \<and> PNone \<noteq> PList []"
  by (simp add: audit_system_access_def audit_body_def try_except_def aws_down_def
        log_event_levels)

text \<open>
  Claim C8, amended: when \<^verbatim>\<open>start_query\<close> or \<^verbatim>\<open>get_query_results\<close> raises, the
  exception is caught, logged once at error severity, and the method returns \<^verbatim>\<open>None\<close>.
  It returns \<^verbatim>\<open>None\<close> on every other path too, the findings being only logged at
  warning severity, so the returned value tells a failed scan neither from a scan
  without findings nor from one with findings.
\<close>

theorem audit_system_access_returns_none:
  "fst (audit_system_access a w) = Inr PNone
   \<and> (logs_start_query a ''/aws/lambda/dicom-handler'' audit_query = Inl e \<longrightarrow>
        audit_system_access a w = (Inr PNone, logging ERROR (ErrorAuditing e) w))
   \<and> (logs_start_query a ''/aws/lambda/dicom-handler'' audit_query = Inr query_id \<and>
      logs_get_query_results a query_id = Inl e \<longrightarrow>
        audit_system_access a w = (Inr PNone, logging ERROR (ErrorAuditing e) w))
   \<and> (logs_start_query a ''/aws/lambda/dicom-handler'' audit_query = Inr query_id \<and>
      logs_get_query_results a query_id = Inr results \<longrightarrow>
        audit_system_access a w =
          (Inr PNone,
           w\<lparr>logged := logged w @
                map (\<lambda>result. (WARNING, UnusualAccessPattern result)) results\<rparr>))"
proof -
  have loop: "for_in results
      (\<lambda>result w0. (None, log_event (UnusualAccessPattern result) ''warning'' w0)) w0 =
        (None, w0\<lparr>logged := logged w0 @
                 map (\<lambda>result. (WARNING, UnusualAccessPattern result)) results\<rparr>)"
    for results w0
    by (induction results arbitrary: w0) (simp_all add: log_event_levels logging_def)
  have always: "fst (audit_system_access a w) = Inr PNone"
    by (simp add: audit_system_access_def audit_body_def try_except_def loop
          split: sum.splits)
  have start: "audit_system_access a w = (Inr PNone, logging ERROR (ErrorAuditing e) w)"
    if "logs_start_query a ''/aws/lambda/dicom-handler'' audit_query = Inl e"
    using that
    by (simp add: audit_system_access_def audit_body_def try_except_def log_event_levels)
  have get: "audit_system_access a w = (Inr PNone, logging ERROR (ErrorAuditing e) w)"
    if "logs_start_query a ''/aws/lambda/dicom-handler'' audit_query = Inr query_id"
      and "logs_get_query_results a query_id = Inl e"
    using that
    by (simp add: audit_system_access_def audit_body_def try_except_def log_event_levels)
  have ok: "audit_system_access a w =
          (Inr PNone,
           w\<lparr>logged := logged w @
                map (\<lambda>result. (WARNING, UnusualAccessPattern result)) results\<rparr>)"
    if "logs_start_query a ''/aws/lambda/dicom-handler'' audit_query = Inr query_id"
      and "logs_get_query_results a query_id = Inr results"
    using that
    by (simp add: audit_system_access_def audit_body_def try_except_def loop)
  show ?thesis
    using always start get ok by blast
qed

theorem audit_system_access_returns_none_witness:
  "logs_start_query aws_down ''/aws/lambda/dicom-handler'' audit_query =
     Inl (ServiceError ''logs'')
   \<and> audit_system_access aws_down init_world =
       (Inr PNone, logging ERROR (ErrorAuditing (ServiceError ''logs'')) init_world)
   \<and> logs_start_query (aws_with None [] []) ''/aws/lambda/dicom-handler'' audit_query =
       Inr ''q-1''
   \<and> logs_get_query_results (aws_with None [] []) ''q-1'' = Inr []
   \<and> fst (audit_system_access (aws_with None [] []) init_world) = Inr PNone
   \<and> logs_get_query_results (aws_with None [] [''login failure'']) ''q-1'' =
       Inr [''login failure'']
   \<and> audit_system_access (aws_with None [] [''login failure'']) init_world =
       (Inr PNone, logging WARNING (UnusualAccessPattern ''login failure'') init_world)"
proof -
  have d: "logs_start_query aws_down ''/aws/lambda/dicom-handler'' audit_query =
     Inl (ServiceError ''logs'')"
    by (simp add: aws_down_def)
  have s: "logs_start_query (aws_with None [] rows) ''/aws/lambda/dicom-handler'' audit_query =
       Inr ''q-1''" for rows
    by (simp add: aws_with_def)
  have g: "logs_get_query_results (aws_with None [] rows) ''q-1'' = Inr rows" for rows
    by (simp add: aws_with_def)
  from d audit_system_access_returns_none
           [of aws_down init_world "ServiceError ''logs''" "''q-1''" "[]"]
  have c1: "audit_system_access aws_down init_world =
       (Inr PNone, logging ERROR (ErrorAuditing (ServiceError ''logs'')) init_world)"
    by blast
  from s g audit_system_access_returns_none
           [of "aws_with None [] [''login failure'']" init_world "ServiceError ''logs''"
               "''q-1''" "[''login failure'']"]
  have c2: "audit_system_access (aws_with None [] [''login failure'']) init_world =
       (Inr PNone,
        init_world\<lparr>logged := logged init_world @
          map (\<lambda>result. (WARNING, UnusualAccessPattern result)) [''login failure'']\<rparr>)"
    by blast
  from audit_system_access_returns_none
           [of "aws_with None [] []" init_world "ServiceError ''logs''" "''q-1''" "[]"]
  have c3: "fst (audit_system_access (aws_with None [] []) init_world) = Inr PNone"
    by blast
  show ?thesis
    using d s g c1 c2 c3 by (simp add: logging_def)
qed

text \<open>
  Claim C9: \<^verbatim>\<open>auto_resolve_issues\<close> never raises. When \<^verbatim>\<open>invoke\<close> raises, the
  exception is caught, logged once at error severity, and the method returns
  \<^verbatim>\<open>None\<close>; when it answers, the invocation is logged and the response returned.
\<close>

theorem auto_resolve_issues_never_raises:
  "(\<exists>ret. fst (auto_resolve_issues a function_name payload w) = Inr ret)
   \<and> (lambda_invoke a function_name ''Event'' payload = Inl e \<longrightarrow>
        auto_resolve_issues a function_name payload w =
          (Inr None, logging ERROR (ErrorInvokingLambda e) w))
   \<and> (lambda_invoke a function_name ''Event'' payload = Inr response \<longrightarrow>
        auto_resolve_issues a function_name payload w =
          (Inr (Some response), logging INFO (InvokedLambda function_name) w))"
  by (cases "lambda_invoke a function_name ''Event'' payload")
     (simp_all add: auto_resolve_issues_def try_except_def log_event_levels)

theorem auto_resolve_issues_never_raises_witness:
  "lambda_invoke aws_down ''auto-resolution-handler'' ''Event'' ''{}'' =
     Inl (ServiceError ''lambda'')
   \<and> auto_resolve_issues aws_down ''auto-resolution-handler'' ''{}'' init_world =
       (Inr None, logging ERROR (ErrorInvokingLambda (ServiceError ''lambda'')) init_world)
   \<and> lambda_invoke (aws_with None [] []) ''auto-resolution-handler'' ''Event'' ''{}'' =
       Inr ''accepted''
   \<and> auto_resolve_issues (aws_with None [] []) ''auto-resolution-handler'' ''{}'' init_world =
       (Inr (Some ''accepted''), logging INFO (InvokedLambda ''auto-resolution-handler'')
          init_world)"
proof -
  have d: "lambda_invoke aws_down ''auto-resolution-handler'' ''Event'' ''{}'' =
     Inl (ServiceError ''lambda'')"
    by (simp add: aws_down_def)
  have u: "lambda_invoke (aws_with None [] []) ''auto-resolution-handler'' ''Event'' ''{}'' =
       Inr ''accepted''"
    by (simp add: aws_with_def)
  from d auto_resolve_issues_never_raises
           [of aws_down "''auto-resolution-handler''" "''{}''" init_world
               "ServiceError ''lambda''" "''accepted''"]
  have c1: "auto_resolve_issues aws_down ''auto-resolution-handler'' ''{}'' init_world =
       (Inr None, logging ERROR (ErrorInvokingLambda (ServiceError ''lambda'')) init_world)"
    by blast
  from u auto_resolve_issues_never_raises
           [of "aws_with None [] []" "''auto-resolution-handler''" "''{}''" init_world
               "ServiceError ''lambda''" "''accepted''"]
  have c2: "auto_resolve_issues (aws_with None [] []) ''auto-resolution-handler'' ''{}''
              init_world =
       (Inr (Some ''accepted''), logging INFO (InvokedLambda ''auto-resolution-handler'')
          init_world)"
    by blast
  show ?thesis
    using d u c1 c2 by simp
qed

end
